theory Spec2Isabelle
  imports Complex_Main
begin

section \<open>JSON values\<close>

text \<open>
  The values \<^verbatim>\<open>JSON.parse\<close> returns, \<^verbatim>\<open>JSON.stringify\<close> prints and an HTTP response
  carries as its body. An object is the list of its own properties, in order, with
  distinct keys. A number is a rational: the code modelled here compares numbers with 0
  and 1 at most, and otherwise only stores and shows them.
\<close>

datatype json =
    JNull
  | JBool bool
  | JNumber rat
  | JString string
  | JArray "json list"
  | JObject "(string \<times> json) list"

section \<open>The dimension-extraction page (component DimensionExtractor in frontend/src)\<close>

text \<open>
  The React component \<^verbatim>\<open>DimensionExtractor\<close> keeps its data in \<^verbatim>\<open>useState\<close> cells and
  changes them in event handlers. The model is explicit state passing: a record of the
  cells, and one function per handler. An \<^verbatim>\<open>async\<close> handler runs in two parts, the
  statements before its \<^verbatim>\<open>await\<close> (which issue the HTTP request) and the statements after
  it (which receive the outcome of the request); each part is a function of its own, and
  the handler run to its end is their composition. What the server answers is an input of
  the second part: \<open>Inr\<close> the response body, \<open>Inl\<close> the error that \<^verbatim>\<open>axios.post\<close> rejected
  with.

  The type argument of \<^verbatim>\<open>axios.post<DimensionResult>\<close> is erased when the page is
  compiled and nothing checks the body of a response, so the result cell holds a JSON
  value, whatever the server sent.
\<close>

subsection \<open>Data\<close>

text \<open>A browser \<^verbatim>\<open>File\<close>; the component reads only its name.\<close>

record File =
  name :: string

text \<open>
  \<^verbatim>\<open>FileState\<close> and \<^verbatim>\<open>PreviewState\<close> have the same three keys, holding \<^verbatim>\<open>File | null\<close>
  and \<^verbatim>\<open>string | null\<close>.
\<close>

record 'a views =
  top_view :: "'a option"
  front_view :: "'a option"
  side_view :: "'a option"

type_synonym FileState = "File views"
type_synonym PreviewState = "string views"

text \<open>
  The error caught in \<^verbatim>\<open>handleSubmit\<close> is read through
  \<^verbatim>\<open>error.response?.data?.error\<close> and \<^verbatim>\<open>error.message\<close>. The optional chain is one
  value: \<open>None\<close> when any link of it is undefined.
\<close>

record AxiosError =
  response_data_error :: "string option"
  message :: string

record state =
  files :: FileState
  isLoading :: bool
  result :: "json option"
  error :: "string option"
  previews :: PreviewState
  vbaScript :: "string option"
  vbaError :: "string option"
  isGeneratingVba :: bool

text \<open>What a handler sends out: an HTTP POST, or a file offered for download.\<close>

datatype body = FormData "(string \<times> File) list" | Json json

datatype effect = Post string body | Download string string

subsection \<open>JavaScript helpers\<close>

text \<open>
  \<^verbatim>\<open>Object.entries\<close> and \<^verbatim>\<open>Object.values\<close> list the keys in the order of the object
  literal of the initial state; \<^verbatim>\<open>handleFileChange\<close> only overwrites existing keys.
\<close>

definition Object_entries :: "'a views \<Rightarrow> (string \<times> 'a option) list" where
  "Object_entries v =
     [(''top_view'', top_view v), (''front_view'', front_view v), (''side_view'', side_view v)]"

definition Object_values :: "'a views \<Rightarrow> 'a option list" where
  "Object_values v = map snd (Object_entries v)"

text \<open>A \<^verbatim>\<open>string | null\<close> is falsy when it is null or the empty string.\<close>

fun truthy :: "string option \<Rightarrow> bool" where
  "truthy None = False"
| "truthy (Some s) = (s \<noteq> [])"

text \<open>\<^verbatim>\<open>a || b\<close> on strings: the left operand when it is truthy, else the right one.\<close>

definition or_else :: "string option \<Rightarrow> string \<Rightarrow> string" where
  "or_else a b = (case a of None \<Rightarrow> b | Some s \<Rightarrow> if s \<noteq> [] then s else b)"

subsection \<open>\<^verbatim>\<open>handleSubmit\<close>\<close>

text \<open>The loop that fills the \<^verbatim>\<open>FormData\<close>: one entry for every file that is set.\<close>

fun append_entries :: "(string \<times> File option) list \<Rightarrow> (string \<times> File) list" where
  "append_entries [] = []"
| "append_entries ((key, None) # es) = append_entries es"
| "append_entries ((key, Some v) # es) = (key, v) # append_entries es"

definition formData_of :: "FileState \<Rightarrow> (string \<times> File) list" where
  "formData_of fs = append_entries (Object_entries fs)"

text \<open>Up to the \<^verbatim>\<open>await\<close>: the five setters, then the request.\<close>

definition handleSubmit_begin :: "state \<Rightarrow> state \<times> effect" where
  "handleSubmit_begin s =
     (s\<lparr>isLoading := True, error := None, result := None, vbaScript := None, vbaError := None\<rparr>,
      Post ''http://localhost:5001/extract-dimensions'' (FormData (formData_of (files s))))"

text \<open>The message of the \<^verbatim>\<open>catch\<close> block.\<close>

definition submit_error_message :: "AxiosError \<Rightarrow> string" where
  "submit_error_message e =
     or_else (response_data_error e)
       (or_else (Some (message e)) ''An error occurred while processing the images'')"

text \<open>After the \<^verbatim>\<open>await\<close>: \<^verbatim>\<open>try\<close> or \<^verbatim>\<open>catch\<close>, then \<^verbatim>\<open>finally\<close>.\<close>

definition handleSubmit_end :: "state \<Rightarrow> AxiosError + json \<Rightarrow> state" where
  "handleSubmit_end s outcome =
     (case outcome of
        Inr response_data \<Rightarrow> s\<lparr>result := Some response_data\<rparr>
      | Inl e \<Rightarrow> s\<lparr>error := Some (submit_error_message e)\<rparr>)
     \<lparr>isLoading := False\<rparr>"

definition handleSubmit :: "state \<Rightarrow> AxiosError + json \<Rightarrow> state" where
  "handleSubmit s outcome = handleSubmit_end (fst (handleSubmit_begin s)) outcome"

subsection \<open>\<^verbatim>\<open>handleGenerateVba\<close> and \<^verbatim>\<open>handleDownloadVba\<close>\<close>

text \<open>
  \<^verbatim>\<open>if (!result) return;\<close> comes first: with no result the state is left as it is and
  nothing is sent.
\<close>

definition handleGenerateVba_begin :: "state \<Rightarrow> state \<times> effect option" where
  "handleGenerateVba_begin s =
     (case result s of
        None \<Rightarrow> (s, None)
      | Some r \<Rightarrow>
          (s\<lparr>isGeneratingVba := True, vbaError := None, vbaScript := None\<rparr>,
           Some (Post ''http://localhost:5002/convert-clean'' (Json r))))"

definition generate_error_message :: "AxiosError \<Rightarrow> string" where
  "generate_error_message e =
     or_else (Some (message e)) ''An error occurred while generating VBA script''"

definition handleGenerateVba_end :: "state \<Rightarrow> AxiosError + string \<Rightarrow> state" where
  "handleGenerateVba_end s outcome =
     (case outcome of
        Inr response_data \<Rightarrow> s\<lparr>vbaScript := Some response_data\<rparr>
      | Inl e \<Rightarrow> s\<lparr>vbaError := Some (generate_error_message e)\<rparr>)
     \<lparr>isGeneratingVba := False\<rparr>"

definition handleGenerateVba :: "state \<Rightarrow> AxiosError + string \<Rightarrow> state \<times> effect option" where
  "handleGenerateVba s outcome =
     (case handleGenerateVba_begin s of
        (s', None) \<Rightarrow> (s', None)
      | (s', Some req) \<Rightarrow> (handleGenerateVba_end s' outcome, Some req))"

text \<open>
  \<^verbatim>\<open>if (!vbaScript) return;\<close> then the download of the script under a fixed file name.
  The handler sets no state.
\<close>

definition handleDownloadVba :: "state \<Rightarrow> effect option" where
  "handleDownloadVba s =
     (case vbaScript s of
        None \<Rightarrow> None
      | Some script \<Rightarrow>
          if \<not> truthy (Some script) then None
          else Some (Download ''solidworks_macro.vba'' script))"

subsection \<open>What is rendered\<close>

definition allFilesSelected :: "state \<Rightarrow> bool" where
  "allFilesSelected s = list_all (\<lambda>file. file \<noteq> None) (Object_values (files s))"

text \<open>The \<^verbatim>\<open>disabled\<close> attribute of the submit button.\<close>

definition submit_disabled :: "state \<Rightarrow> bool" where
  "submit_disabled s = (\<not> allFilesSelected s \<or> isLoading s)"

text \<open>\<^verbatim>\<open>{result && (...)}\<close>: the section that prints the result.\<close>

definition result_section_shown :: "state \<Rightarrow> bool" where
  "result_section_shown s = (result s \<noteq> None)"

text \<open>\<^verbatim>\<open>{error && (...)}\<close>: the error box.\<close>

definition error_message_shown :: "state \<Rightarrow> bool" where
  "error_message_shown s = truthy (error s)"

subsection \<open>Sample states\<close>

text \<open>A state with the three views chosen and nothing extracted yet.\<close>

definition three_views_state :: state where
  "three_views_state =
     \<lparr>files = \<lparr>top_view = Some \<lparr>name = ''top.png''\<rparr>,
               front_view = Some \<lparr>name = ''front.png''\<rparr>,
               side_view = Some \<lparr>name = ''side.png''\<rparr>\<rparr>,
      isLoading = False, result = None, error = None,
      previews = \<lparr>top_view = None, front_view = None, side_view = None\<rparr>,
      vbaScript = None, vbaError = None, isGeneratingVba = False\<rparr>"

text \<open>A result of the declared shape, and a state that holds it together with a script.\<close>

definition sample_result :: json where
  "sample_result =
     JObject [(''root'', JObject
       [(''type'', JString ''base_extrude''),
        (''operations'', JArray
           [JObject
              [(''type'', JString ''cut''),
               (''dimensions'',
                  JObject [(''width'', JNumber 30), (''height'', JNumber 30),
                           (''depth'', JNumber 100)]),
               (''position'',
                  JObject [(''x'', JNumber 5), (''y'', JNumber 15), (''z'', JNumber 0)])]])])]"

definition extracted_state :: state where
  "extracted_state =
     three_views_state\<lparr>result := Some sample_result, vbaScript := Some ''Option Explicit''\<rparr>"


text \<open>
  Three errors of a failed request: one with an error text from the server, one with only
  the message of the error itself, one with neither.
\<close>

definition server_text_error :: AxiosError where
  "server_text_error =
     \<lparr>response_data_error = Some ''No shapes detected'',
      message = ''Request failed with status code 400''\<rparr>"

definition network_error :: AxiosError where
  "network_error = \<lparr>response_data_error = None, message = ''Network Error''\<rparr>"

definition silent_error :: AxiosError where
  "silent_error = \<lparr>response_data_error = Some [], message = []\<rparr>"

subsection \<open>The interface \<^verbatim>\<open>DimensionResult\<close>\<close>








section \<open>Validation of the recommendation response (frontend/src/utils/geminiApi.ts)\<close>

text \<open>
  \<^verbatim>\<open>getAnalysisRecommendation\<close> and \<^verbatim>\<open>getAnalysisRecommendationWithImage\<close> end in the same
  block: the text of the first candidate is cleaned up and given to \<^verbatim>\<open>JSON.parse\<close>, the
  parsed value is checked, and \<^verbatim>\<open>parsedResponse\<close> is returned; whatever is thrown inside
  the block is caught and thrown again inside a new error. The model starts at the outcome
  of \<^verbatim>\<open>JSON.parse\<close> (\<open>None\<close> when it throws): everything before it either throws or
  yields the text.

  \<^verbatim>\<open>JSON.parse\<close> never yields NaN; it yields an infinity
  for a literal out of range, which the bounds check of the source rejects and which has
  no counterpart here.
\<close>

datatype validation_error =
    SyntaxError
  | TypeError
  | MissingResponseType
  | MissingRecommendations
  | NotExactlyThree
  | InvalidAnalysisType nat
  | InvalidConfidence nat
  | MissingReasoning nat

text \<open>\<^verbatim>\<open>Failed to parse Gemini response as valid JSON: ...\<close>, around the error caught.\<close>

datatype gemini_error = FailedToParse validation_error

text \<open>
  Reading a property: a \<^verbatim>\<open>TypeError\<close> on null, the own property of an object (\<open>None\<close> is
  \<^verbatim>\<open>undefined\<close>), and \<^verbatim>\<open>undefined\<close> on a boolean, number, string or array for each of
  the names the block reads.
\<close>

fun get_prop :: "json \<Rightarrow> string \<Rightarrow> validation_error + json option" where
  "get_prop JNull k = Inl TypeError"
| "get_prop (JObject kvs) k = Inr (map_of kvs k)"
| "get_prop (JBool b) k = Inr None"
| "get_prop (JNumber n) k = Inr None"
| "get_prop (JString s) k = Inr None"
| "get_prop (JArray vs) k = Inr None"

text \<open>What \<^verbatim>\<open>!v\<close> negates.\<close>

fun json_truthy :: "json option \<Rightarrow> bool" where
  "json_truthy None = False"
| "json_truthy (Some JNull) = False"
| "json_truthy (Some (JBool b)) = b"
| "json_truthy (Some (JNumber n)) = (n \<noteq> 0)"
| "json_truthy (Some (JString s)) = (s \<noteq> [])"
| "json_truthy (Some (JArray vs)) = True"
| "json_truthy (Some (JObject kvs)) = True"

definition validAnalyses :: "string list" where
  "validAnalyses = [''structural'', ''thermal'', ''magnetostatic'', ''modal'']"

text \<open>\<^verbatim>\<open>validAnalyses.includes(v)\<close> on an array of strings: only an equal string is found.\<close>

fun array_includes :: "string list \<Rightarrow> json option \<Rightarrow> bool" where
  "array_includes xs (Some (JString s)) = (s \<in> set xs)"
| "array_includes xs v = False"

text \<open>\<^verbatim>\<open>typeof v !== 'number' || v < 0 || v > 1\<close>\<close>

fun invalid_confidence :: "json option \<Rightarrow> bool" where
  "invalid_confidence (Some (JNumber c)) = (c < 0 \<or> c > 1)"
| "invalid_confidence v = True"

fun isArray :: "json option \<Rightarrow> bool" where
  "isArray (Some (JArray vs)) = True"
| "isArray v = False"

text \<open>The callback of \<^verbatim>\<open>forEach\<close>.\<close>

definition check_recommendation :: "json \<Rightarrow> nat \<Rightarrow> validation_error + unit" where
  "check_recommendation rec index =
     (case get_prop rec ''analysis_type'' of
        Inl e \<Rightarrow> Inl e
      | Inr analysis_type \<Rightarrow>
          if \<not> json_truthy analysis_type \<or> \<not> array_includes validAnalyses analysis_type
          then Inl (InvalidAnalysisType index)
          else (case get_prop rec ''confidence'' of
                  Inl e \<Rightarrow> Inl e
                | Inr confidence \<Rightarrow>
                    if invalid_confidence confidence then Inl (InvalidConfidence index)
                    else (case get_prop rec ''reasoning'' of
                            Inl e \<Rightarrow> Inl e
                          | Inr reasoning \<Rightarrow>
                              if \<not> json_truthy reasoning then Inl (MissingReasoning index)
                              else Inr ())))"

text \<open>\<^verbatim>\<open>forEach\<close>: in index order, stopping at the first entry that throws.\<close>

fun forEach_check :: "json list \<Rightarrow> nat \<Rightarrow> validation_error + unit" where
  "forEach_check [] index = Inr ()"
| "forEach_check (rec # recs) index =
     (case check_recommendation rec index of
        Inl e \<Rightarrow> Inl e
      | Inr u \<Rightarrow> forEach_check recs (Suc index))"

text \<open>The checks between \<^verbatim>\<open>JSON.parse\<close> and \<^verbatim>\<open>return parsedResponse\<close>.\<close>

definition validate :: "json \<Rightarrow> validation_error + json" where
  "validate parsedResponse =
     (case get_prop parsedResponse ''response_type'' of
        Inl e \<Rightarrow> Inl e
      | Inr response_type \<Rightarrow>
          if \<not> json_truthy response_type
             \<or> response_type \<noteq> Some (JString ''analysis_recommendation'')
          then Inl MissingResponseType
          else (case get_prop parsedResponse ''data'' of
                  Inl e \<Rightarrow> Inl e
                | Inr None \<Rightarrow> Inl MissingRecommendations
                | Inr (Some data) \<Rightarrow>
                    if \<not> json_truthy (Some data) then Inl MissingRecommendations
                    else (case get_prop data ''recommendations'' of
                            Inl e \<Rightarrow> Inl e
                          | Inr recommendations \<Rightarrow>
                              if \<not> json_truthy recommendations \<or> \<not> isArray recommendations
                              then Inl MissingRecommendations
                              else (case recommendations of
                                      Some (JArray recs) \<Rightarrow>
                                        if length recs \<noteq> 3 then Inl NotExactlyThree
                                        else (case forEach_check recs 0 of
                                                Inl e \<Rightarrow> Inl e
                                              | Inr u \<Rightarrow> Inr parsedResponse)
                                    | _ \<Rightarrow> Inl MissingRecommendations))))"

text \<open>The \<^verbatim>\<open>try\<close> block with its \<^verbatim>\<open>catch\<close>, the same text in both functions.\<close>

definition getAnalysisRecommendation :: "json option \<Rightarrow> gemini_error + json" where
  "getAnalysisRecommendation parsed =
     (case parsed of
        None \<Rightarrow> Inl (FailedToParse SyntaxError)
      | Some parsedResponse \<Rightarrow>
          (case validate parsedResponse of
             Inl e \<Rightarrow> Inl (FailedToParse e)
           | Inr r \<Rightarrow> Inr r))"

definition getAnalysisRecommendationWithImage :: "json option \<Rightarrow> gemini_error + json" where
  "getAnalysisRecommendationWithImage parsed =
     (case parsed of
        None \<Rightarrow> Inl (FailedToParse SyntaxError)
      | Some parsedResponse \<Rightarrow>
          (case validate parsedResponse of
             Inl e \<Rightarrow> Inl (FailedToParse e)
           | Inr r \<Rightarrow> Inr r))"

subsection \<open>The shape of a recommendation response\<close>

text \<open>\<open>v.data.recommendations\<close> when all of it is there and it is an array.\<close>

definition recommendations_of :: "json \<Rightarrow> json list option" where
  "recommendations_of v =
     (case get_prop v ''data'' of
        Inr (Some data) \<Rightarrow>
          (case get_prop data ''recommendations'' of
             Inr (Some (JArray recs)) \<Rightarrow> Some recs
           | _ \<Rightarrow> None)
      | _ \<Rightarrow> None)"

definition analysis_type_ok :: "json \<Rightarrow> bool" where
  "analysis_type_ok rec =
     (case get_prop rec ''analysis_type'' of
        Inr (Some (JString s)) \<Rightarrow> s \<in> {''structural'', ''thermal'', ''magnetostatic'', ''modal''}
      | _ \<Rightarrow> False)"

definition confidence_ok :: "json \<Rightarrow> bool" where
  "confidence_ok rec =
     (case get_prop rec ''confidence'' of
        Inr (Some (JNumber c)) \<Rightarrow> 0 \<le> c \<and> c \<le> 1
      | _ \<Rightarrow> False)"

text \<open>The reasoning as the interface declares it: a string, and not the empty one.\<close>

definition reasoning_nonempty_string :: "json \<Rightarrow> bool" where
  "reasoning_nonempty_string rec =
     (case get_prop rec ''reasoning'' of
        Inr (Some (JString s)) \<Rightarrow> s \<noteq> []
      | _ \<Rightarrow> False)"

text \<open>The reasoning as the block checks it: any truthy value.\<close>

definition reasoning_truthy :: "json \<Rightarrow> bool" where
  "reasoning_truthy rec =
     (case get_prop rec ''reasoning'' of
        Inr reasoning \<Rightarrow> json_truthy reasoning
      | _ \<Rightarrow> False)"

definition response_shape :: "(json \<Rightarrow> bool) \<Rightarrow> json \<Rightarrow> bool" where
  "response_shape reasoning_ok v =
     (get_prop v ''response_type'' = Inr (Some (JString ''analysis_recommendation''))
      \<and> (case recommendations_of v of
            None \<Rightarrow> False
          | Some recs \<Rightarrow>
              length recs = 3
              \<and> list_all (\<lambda>rec. analysis_type_ok rec \<and> confidence_ok rec \<and> reasoning_ok rec) recs))"

text \<open>
  A response whose first recommendation gives its reasoning as an object where the
  interface declares a string.
\<close>

definition structured_reasoning_response :: json where
  "structured_reasoning_response =
     JObject
       [(''response_type'', JString ''analysis_recommendation''),
        (''data'', JObject
           [(''recommendations'', JArray
              [JObject [(''analysis_type'', JString ''structural''),
                        (''confidence'', JNumber (17 / 20)),
                        (''reasoning'', JObject [(''summary'', JString ''static load'')])],
               JObject [(''analysis_type'', JString ''modal''),
                        (''confidence'', JNumber (13 / 20)),
                        (''reasoning'', JString ''vibration'')],
               JObject [(''analysis_type'', JString ''thermal''),
                        (''confidence'', JNumber (9 / 20)),
                        (''reasoning'', JString ''heat'')]])])]"

section \<open>The emitted SolidWorks macros\<close>

text \<open>
  Three macros kept with the sources are modelled: \<^verbatim>\<open>CreateModelFromJSON\<close> for a 40 by
  60 plate (unnamed/part_000), \<^verbatim>\<open>CreateModelFromJSON\<close> of stacking/vba_script.vb, and
  \<^verbatim>\<open>CreateSimpleCube\<close> of cv_scripts/Basic_Cube_VBA. (A fourth, \<^verbatim>\<open>CreateCuboid\<close>, uses
  other calls and is left aside.) Each is a straight-line \<^verbatim>\<open>Sub\<close>,
  modelled as the list of its SolidWorks API calls in the order of the text. Declarations,
  the \<^verbatim>\<open>Set\<close> assignments of the application objects and the clean-up at the end are
  left out, and a variable stands for the value assigned to it (\<^verbatim>\<open>cubeSize = 0.1\<close>).
  A decimal literal is the rational it denotes.
\<close>

datatype vba_arg = B bool | N rat

text \<open>
  \<^verbatim>\<open>SelectByID2\<close> keeps its name and type arguments; the seven that follow are
  \<^verbatim>\<open>0, 0, 0, False, 0, Nothing, 0\<close> in every call of the three macros.
\<close>

datatype vba_stmt =
    NewPart
  | SelectByID2 string string
  | InsertSketch bool
  | CreateLine rat rat rat rat rat rat
  | CreateCenterRectangle rat rat rat rat rat rat
  | InsertSketch2 bool
  | FeatureExtrusion2 "vba_arg list"
  | ViewZoomtofit2
  | MsgBox string

text \<open>unnamed/part_000\<close>

definition CreateModelFromJSON :: "vba_stmt list" where
  "CreateModelFromJSON =
     [NewPart,
      SelectByID2 ''Front Plane'' ''PLANE'',
      InsertSketch True,
      CreateLine 0 0 0 40 0 0,
      CreateLine 40 0 0 40 60 0,
      CreateLine 40 60 0 0 60 0,
      CreateLine 0 60 0 0 0 0,
      CreateLine 5 15 0 35 15 0,
      CreateLine 35 15 0 35 45 0,
      CreateLine 35 45 0 5 45 0,
      CreateLine 5 45 0 5 15 0,
      InsertSketch2 True,
      FeatureExtrusion2
       [B True, B False, B False, N 0, N 0, N (100), N (1 / 100),
        B False, B False, B False, B False, N 0, N 0,
        B False, B False, B False, B False, B True, B True, B True,
        N 0, N 0, B False],
      ViewZoomtofit2,
      MsgBox ''Model created successfully!'']"

text \<open>stacking/vba_script.vb\<close>

definition CreateModelFromJSON_stacking :: "vba_stmt list" where
  "CreateModelFromJSON_stacking =
     [NewPart,
      SelectByID2 ''Front Plane'' ''PLANE'',
      InsertSketch True,
      CreateCenterRectangle 0 0 0 (1 / 20) (1 / 20) 0,
      InsertSketch2 True,
      FeatureExtrusion2
       [B True, B False, B False, N 0, N 0, N (1 / 10), N (1 / 100),
        B False, B False, B False, B False, N 0, N 0,
        B False, B False, B False, B False, B True, B True, B True,
        N 0, N 0, B False],
      SelectByID2 ''Front Plane'' ''PLANE'',
      InsertSketch True,
      CreateLine 0 0 0 (1 / 10) 0 0,
      CreateLine (1 / 10) 0 0 (1 / 10) (1 / 10) 0,
      CreateLine (1 / 10) (1 / 10) 0 0 (1 / 10) 0,
      CreateLine 0 (1 / 10) 0 0 0 0,
      InsertSketch2 True,
      FeatureExtrusion2
       [B True, B False, B False, N 0, N 0, N (1 / 10), N (1 / 100),
        B False, B False, B False, B False, N 0, N 0,
        B False, B False, B False, B False, B True, B True, B True,
        N 0, N 0, B False],
      ViewZoomtofit2,
      MsgBox ''Model created successfully!'']"

text \<open>cv_scripts/Basic_Cube_VBA, with \<^verbatim>\<open>cubeSize = 0.1\<close>\<close>

definition CreateSimpleCube :: "vba_stmt list" where
  "CreateSimpleCube =
     [NewPart,
      InsertSketch True,
      CreateCenterRectangle 0 0 0 ((1 / 10) / 2) ((1 / 10) / 2) 0,
      InsertSketch2 True,
      FeatureExtrusion2
       [B True, B False, B False, N 0, N 0, N (1 / 10), N (1 / 100),
        B False, B False, B False, B False, N 0, N 0,
        B False, B False, B False, B False, B True, B True, B True,
        N 0, N 0, B False],
      ViewZoomtofit2,
      MsgBox ''Cube created successfully!'']"

subsection \<open>Reading a macro as sketch and feature operations\<close>

text \<open>
  What a macro does to the part, call by call: a sketch is opened (on the plane selected
  just before, if one was), rectangles are drawn in it, the sketch is closed, and the
  sketch is extruded. A rectangle is given by its lower left corner, width and height in
  sketch coordinates.
\<close>

datatype vba_op =
    BeginSketch "(string \<times> string) option"
  | DrawRectangle rat rat rat rat
  | EndSketch
  | Extrusion rat

text \<open>
  \<^verbatim>\<open>CreateCenterRectangle\<close> takes the centre and one corner.
\<close>

definition center_rectangle :: "rat \<Rightarrow> rat \<Rightarrow> rat \<Rightarrow> rat \<Rightarrow> vba_op" where
  "center_rectangle cx cy px py =
     DrawRectangle (cx - \<bar>px - cx\<bar>) (cy - \<bar>py - cy\<bar>) (2 * \<bar>px - cx\<bar>) (2 * \<bar>py - cy\<bar>)"

text \<open>
  Four \<^verbatim>\<open>CreateLine\<close> calls draw a rectangle when they lie in the sketch plane, each
  starts where the one before ends, the last ends where the first starts, and they are
  by turns horizontal and vertical.
\<close>

type_synonym line = "(rat \<times> rat \<times> rat) \<times> (rat \<times> rat \<times> rat)"

definition horizontal :: "line \<Rightarrow> bool" where
  "horizontal l = (case l of ((x1, y1, z1), (x2, y2, z2)) \<Rightarrow> y1 = y2 \<and> z1 = 0 \<and> z2 = 0)"

definition vertical :: "line \<Rightarrow> bool" where
  "vertical l = (case l of ((x1, y1, z1), (x2, y2, z2)) \<Rightarrow> x1 = x2 \<and> z1 = 0 \<and> z2 = 0)"

definition rectangle_of_lines :: "line \<Rightarrow> line \<Rightarrow> line \<Rightarrow> line \<Rightarrow> vba_op option" where
  "rectangle_of_lines l1 l2 l3 l4 =
     (if snd l1 = fst l2 \<and> snd l2 = fst l3 \<and> snd l3 = fst l4 \<and> snd l4 = fst l1
         \<and> ((horizontal l1 \<and> vertical l2 \<and> horizontal l3 \<and> vertical l4)
              \<or> (vertical l1 \<and> horizontal l2 \<and> vertical l3 \<and> horizontal l4))
      then (let xs = map (fst \<circ> fst) [l1, l2, l3, l4];
                ys = map (fst \<circ> snd \<circ> fst) [l1, l2, l3, l4]
            in Some (DrawRectangle (Min (set xs)) (Min (set ys))
                       (Max (set xs) - Min (set xs)) (Max (set ys) - Min (set ys))))
      else None)"

text \<open>The depth of an extrusion is the sixth argument (\<^verbatim>\<open>D1\<close>) of \<^verbatim>\<open>FeatureExtrusion2\<close>.\<close>

fun extrusion_depth :: "vba_arg list \<Rightarrow> rat option" where
  "extrusion_depth (a1 # a2 # a3 # a4 # a5 # N d # as) = Some d"
| "extrusion_depth as = None"

definition prepend :: "'a option \<Rightarrow> 'a list option \<Rightarrow> 'a list option" where
  "prepend a r = (case a of None \<Rightarrow> None | Some v \<Rightarrow> map_option ((#) v) r)"

text \<open>
  \<open>None\<close> when the macro has a call that cannot be read this way: a selection that opens
  no sketch, lines that draw no rectangle, an extrusion without a depth.
\<close>

fun read_macro :: "vba_stmt list \<Rightarrow> vba_op list option" where
  "read_macro [] = Some []"
| "read_macro (SelectByID2 nm ty # InsertSketch True # r) =
     prepend (Some (BeginSketch (Some (nm, ty)))) (read_macro r)"
| "read_macro (InsertSketch True # r) = prepend (Some (BeginSketch None)) (read_macro r)"
| "read_macro (CreateCenterRectangle cx cy cz px py pz # r) =
     prepend (if cz = 0 \<and> pz = 0 then Some (center_rectangle cx cy px py) else None)
       (read_macro r)"
| "read_macro (CreateLine a1 a2 a3 a4 a5 a6 # CreateLine b1 b2 b3 b4 b5 b6
               # CreateLine c1 c2 c3 c4 c5 c6 # CreateLine d1 d2 d3 d4 d5 d6 # r) =
     prepend (rectangle_of_lines ((a1, a2, a3), (a4, a5, a6)) ((b1, b2, b3), (b4, b5, b6))
                ((c1, c2, c3), (c4, c5, c6)) ((d1, d2, d3), (d4, d5, d6)))
       (read_macro r)"
| "read_macro (InsertSketch2 True # r) = prepend (Some EndSketch) (read_macro r)"
| "read_macro (FeatureExtrusion2 args # r) =
     prepend (map_option Extrusion (extrusion_depth args)) (read_macro r)"
| "read_macro (NewPart # r) = read_macro r"
| "read_macro (ViewZoomtofit2 # r) = read_macro r"
| "read_macro (MsgBox text # r) = read_macro r"
| "read_macro r = None"

text \<open>The operations read, or none at all.\<close>

definition ops_of :: "vba_stmt list \<Rightarrow> vba_op list" where
  "ops_of macro = (case read_macro macro of None \<Rightarrow> [] | Some ops \<Rightarrow> ops)"

text \<open>The selections on which the sketches after the first one are opened.\<close>

fun sketch_selections :: "vba_op list \<Rightarrow> (string \<times> string) option list" where
  "sketch_selections [] = []"
| "sketch_selections (BeginSketch sel # ops) = sel # sketch_selections ops"
| "sketch_selections (operation # ops) = sketch_selections ops"

definition later_sketch_selections :: "vba_op list \<Rightarrow> (string \<times> string) option list" where
  "later_sketch_selections ops = tl (sketch_selections ops)"

text \<open>
  The order of the operations, a run of rectangles drawn in one sketch counting once.
\<close>

datatype op_kind = Begin | Rectangle | End | Extrude

fun kind_of :: "vba_op \<Rightarrow> op_kind" where
  "kind_of (BeginSketch sel) = Begin"
| "kind_of (DrawRectangle px py w h) = Rectangle"
| "kind_of EndSketch = End"
| "kind_of (Extrusion d) = Extrude"

definition phases :: "vba_op list \<Rightarrow> op_kind list" where
  "phases ops = remdups_adj (map kind_of ops)"

text \<open>A selection names a face of the part when its type argument is \<^verbatim>\<open>FACE\<close>.\<close>

fun selects_face :: "(string \<times> string) option \<Rightarrow> bool" where
  "selects_face (Some (nm, ty)) = (ty = ''FACE'')"
| "selects_face None = False"

section \<open>The macro code generator\<close>

text \<open>
  The script that \<^verbatim>\<open>handleGenerateVba\<close> receives is written by the service behind
  \<^verbatim>\<open>/convert-clean\<close>, which is not among the sources; the generator is therefore taken
  from the design (sections 3 and 4.4 of the specification). The macros kept with the
  sources agree with it on the order of the operations of a feature; they differ in that
  a later sketch of theirs is begun on the front plane again, and the plate macro draws
  its inner rectangle in the sketch of the root.
\<close>

text \<open>
  Modelled from the spec: the operation kind of a FeatureNode, one of base_extrude, cut
  and boss (the feature tree and its generator are not among the sources).
\<close>

datatype operation_kind = BaseExtrude | Cut | Boss

text \<open>
  Modelled from the spec: the dimensions of a FeatureNode, "dimensions: {width, height,
  depth}".
\<close>

record dimensions =
  width :: rat
  height :: rat
  depth :: rat

text \<open>
  Modelled from the spec: the position of a FeatureNode relative to the origin of its
  parent, "position: {x, y, z}".
\<close>

record position =
  x :: rat
  y :: rat
  z :: rat

text \<open>
  Modelled from the spec: a FeatureNode, with its operation kind, its dimensions, its
  position relative to the origin of its parent, and its ordered children. A FeatureTree
  is the node at its root.
\<close>

datatype feature_node = FeatureNode operation_kind dimensions position "feature_node list"

text \<open>
  Modelled from the spec: what a sketch is begun on, the base plane or a face of a feature
  emitted earlier. Features are numbered in the order the walk reaches them, the root
  being number 0.
\<close>

datatype sketch_plane = base_plane | face_of nat

text \<open>
  Modelled from the spec: a MacroOperation, one of begin_sketch, create_rectangle,
  end_sketch, extrude and cut (\<open>cut_op\<close> here). An extrude or cut carries the number of
  the feature it completes, and its depth; a rectangle its position, width and height.
\<close>

datatype macro_op =
    begin_sketch sketch_plane
  | create_rectangle position rat rat
  | end_sketch
  | extrude nat rat
  | cut_op nat rat

text \<open>
  Modelled from the spec: the last operation of a child node, "extrude-or-cut(depth,
  direction determined by node kind)": a cut node removes material, a boss adds it.
\<close>

fun extrude_or_cut :: "operation_kind \<Rightarrow> nat \<Rightarrow> rat \<Rightarrow> macro_op" where
  "extrude_or_cut Cut n d = cut_op n d"
| "extrude_or_cut Boss n d = extrude n d"
| "extrude_or_cut BaseExtrude n d = extrude n d"

text \<open>
  Modelled from the spec: the pre-order walk below the root. "For each child node, in
  tree order: begin_sketch(parent's relevant face), create_rectangle(relative position,
  width, height), end_sketch, extrude-or-cut", and then the children of that child. The
  second argument is the number the next feature gets; it is returned advanced.
\<close>

fun emit_node :: "nat \<Rightarrow> nat \<Rightarrow> feature_node \<Rightarrow> macro_op list \<times> nat"
  and emit_children :: "nat \<Rightarrow> nat \<Rightarrow> feature_node list \<Rightarrow> macro_op list \<times> nat" where
  "emit_node parent n (FeatureNode kind dims pos children) =
     (case emit_children n (Suc n) children of
        (ops, n') \<Rightarrow>
          ([begin_sketch (face_of parent), create_rectangle pos (width dims) (height dims),
            end_sketch, extrude_or_cut kind n (depth dims)] @ ops, n'))"
| "emit_children parent n [] = ([], n)"
| "emit_children parent n (child # children) =
     (case emit_node parent n child of
        (ops1, n1) \<Rightarrow>
          (case emit_children parent n1 children of
             (ops2, n2) \<Rightarrow> (ops1 @ ops2, n2)))"

text \<open>
  Modelled from the spec: the Macro Code Generator, "emitting for the root:
  begin_sketch(base plane), create_rectangle(position, width, height), end_sketch,
  extrude(depth)", followed by the operations of the children.
\<close>

fun generate :: "feature_node \<Rightarrow> macro_op list" where
  "generate (FeatureNode kind dims pos children) =
     [begin_sketch base_plane, create_rectangle pos (width dims) (height dims),
      end_sketch, extrude 0 (depth dims)] @ fst (emit_children 0 1 children)"

text \<open>An operation completes feature \<open>k\<close> when it is the extrude or the cut of \<open>k\<close>.\<close>

fun completes :: "nat \<Rightarrow> macro_op \<Rightarrow> bool" where
  "completes k (extrude n d) = (n = k)"
| "completes k (cut_op n d) = (n = k)"
| "completes k operation = False"

text \<open>The features a program completes.\<close>

fun completed :: "macro_op list \<Rightarrow> nat set" where
  "completed [] = {}"
| "completed (extrude n d # ops) = insert n (completed ops)"
| "completed (cut_op n d # ops) = insert n (completed ops)"
| "completed (operation # ops) = completed ops"

text \<open>
  A program read from left to right, with the set of features completed so far: every
  sketch begun on a face names a feature of that set, and every extrude or cut completes
  a feature that is not yet in it.
\<close>

fun faces_known :: "nat set \<Rightarrow> macro_op list \<Rightarrow> bool" where
  "faces_known done [] = True"
| "faces_known done (begin_sketch (face_of k) # ops) = (k \<in> done \<and> faces_known done ops)"
| "faces_known done (extrude n d # ops) = (n \<notin> done \<and> faces_known (insert n done) ops)"
| "faces_known done (cut_op n d # ops) = (n \<notin> done \<and> faces_known (insert n done) ops)"
| "faces_known done (operation # ops) = faces_known done ops"

text \<open>
  Scenario B of the specification: a 40 by 60 base, 100 deep, with one 30 by 40 cut at
  offset (5, 15).
\<close>

definition scenario_B :: feature_node where
  "scenario_B =
     FeatureNode BaseExtrude \<lparr>width = 40, height = 60, depth = 100\<rparr> \<lparr>x = 0, y = 0, z = 0\<rparr>
       [FeatureNode Cut \<lparr>width = 30, height = 40, depth = 100\<rparr> \<lparr>x = 5, y = 15, z = 0\<rparr> []]"

section \<open>Properties of the dimension-extraction page\<close>

lemma or_else_nonempty: "b \<noteq> [] \<Longrightarrow> or_else a b \<noteq> []"
  by (simp add: or_else_def split: option.split)

lemma submit_error_message_nonempty: "submit_error_message e \<noteq> []"
  unfolding submit_error_message_def
  by (rule or_else_nonempty, rule or_else_nonempty) simp

text \<open>
  Claim C8. The part of \<^verbatim>\<open>handleSubmit\<close> that runs before the request is sent leaves
  \<open>result\<close>, \<open>error\<close>, \<open>vbaScript\<close> and \<open>vbaError\<close> at null in the state that goes with the
  request; and whatever these four cells held before has no influence on that state, on
  the request, or on the state the handler ends in.
\<close>

theorem handleSubmit_resets_outputs:
  "result (fst (handleSubmit_begin s)) = None
   \<and> error (fst (handleSubmit_begin s)) = None
   \<and> vbaScript (fst (handleSubmit_begin s)) = None
   \<and> vbaError (fst (handleSubmit_begin s)) = None
   \<and> handleSubmit_begin (s\<lparr>result := r, error := e, vbaScript := v, vbaError := w\<rparr>)
       = handleSubmit_begin s
   \<and> handleSubmit (s\<lparr>result := r, error := e, vbaScript := v, vbaError := w\<rparr>) outcome
       = handleSubmit s outcome"
  by (simp add: handleSubmit_begin_def handleSubmit_def)

text \<open>
  Claim C4. When the request of \<^verbatim>\<open>handleSubmit\<close> fails, the handler ends with \<open>result\<close>
  at null, with the result section not rendered, the error box rendered and the loading
  flag cleared, and with \<open>error\<close> holding a non-empty message that describes the failure:
  the error text of the server when there is a non-empty one, else the message of the
  error itself when that is not empty, else the fixed fallback. The statements that run
  after the failure do not write \<open>result\<close> at all, in whatever state they run.
\<close>

theorem handleSubmit_failure_no_result:
  "result (handleSubmit s (Inl e)) = None
   \<and> error (handleSubmit s (Inl e)) = Some (submit_error_message e)
   \<and> submit_error_message e \<noteq> []
   \<and> (response_data_error e = Some (submit_error_message e)
        \<or> submit_error_message e = message e
        \<or> submit_error_message e = ''An error occurred while processing the images'')
   \<and> \<not> result_section_shown (handleSubmit s (Inl e))
   \<and> error_message_shown (handleSubmit s (Inl e))
   \<and> \<not> isLoading (handleSubmit s (Inl e))
   \<and> result (handleSubmit_end s' (Inl e)) = result s'
   \<and> (response_data_error e = Some t \<and> t \<noteq> []
        \<longrightarrow> error (handleSubmit s (Inl e)) = Some t)
   \<and> (\<not> truthy (response_data_error e) \<and> message e \<noteq> []
        \<longrightarrow> error (handleSubmit s (Inl e)) = Some (message e))
   \<and> (\<not> truthy (response_data_error e) \<and> message e = []
        \<longrightarrow> error (handleSubmit s (Inl e))
            = Some ''An error occurred while processing the images'')"
proof -
  have shape: "handleSubmit s (Inl e) =
      s\<lparr>isLoading := False, error := Some (submit_error_message e), result := None,
        vbaScript := None, vbaError := None\<rparr>"
    by (simp add: handleSubmit_def handleSubmit_begin_def handleSubmit_end_def)
  have among: "response_data_error e = Some (submit_error_message e)
      \<or> submit_error_message e = message e
      \<or> submit_error_message e = ''An error occurred while processing the images''"
    by (simp add: submit_error_message_def or_else_def split: option.split)
  have kept: "result (handleSubmit_end s' (Inl e)) = result s'"
    by (simp add: handleSubmit_end_def)
  have server: "response_data_error e = Some t \<and> t \<noteq> [] \<longrightarrow> submit_error_message e = t"
    by (simp add: submit_error_message_def or_else_def)
  have own: "\<not> truthy (response_data_error e) \<and> message e \<noteq> []
      \<longrightarrow> submit_error_message e = message e"
    by (cases "response_data_error e") (simp_all add: submit_error_message_def or_else_def)
  have fallback: "\<not> truthy (response_data_error e) \<and> message e = []
      \<longrightarrow> submit_error_message e = ''An error occurred while processing the images''"
    by (cases "response_data_error e") (simp_all add: submit_error_message_def or_else_def)
  show ?thesis
    using submit_error_message_nonempty [of e] among kept server own fallback
    by (simp add: shape result_section_shown_def error_message_shown_def)
qed

theorem handleSubmit_failure_no_result_witness:
  "error (handleSubmit three_views_state (Inl server_text_error)) = Some ''No shapes detected''
   \<and> error (handleSubmit three_views_state (Inl network_error)) = Some ''Network Error''
   \<and> error (handleSubmit three_views_state (Inl silent_error))
       = Some ''An error occurred while processing the images''
   \<and> result (handleSubmit three_views_state (Inl server_text_error)) = None"
proof -
  have h1: "response_data_error server_text_error = Some ''No shapes detected''
      \<and> ''No shapes detected'' \<noteq> []"
    by (simp add: server_text_error_def)
  have h2: "\<not> truthy (response_data_error network_error) \<and> message network_error \<noteq> []"
    by (simp add: network_error_def)
  have h3: "\<not> truthy (response_data_error silent_error) \<and> message silent_error = []"
    by (simp add: silent_error_def)
  from handleSubmit_failure_no_result
    [where e = server_text_error and t = "''No shapes detected''" and s = three_views_state] h1
  have e1: "error (handleSubmit three_views_state (Inl server_text_error))
      = Some ''No shapes detected''"
    and r1: "result (handleSubmit three_views_state (Inl server_text_error)) = None"
    by blast+
  from handleSubmit_failure_no_result
    [where e = network_error and s = three_views_state] h2
  have "error (handleSubmit three_views_state (Inl network_error))
      = Some (message network_error)"
    by blast
  then have e2: "error (handleSubmit three_views_state (Inl network_error))
      = Some ''Network Error''"
    by (simp add: network_error_def)
  from handleSubmit_failure_no_result
    [where e = silent_error and s = three_views_state] h3
  have e3: "error (handleSubmit three_views_state (Inl silent_error))
      = Some ''An error occurred while processing the images''"
    by blast
  from e1 e2 e3 r1 show ?thesis by blast
qed

text \<open>
  Claim C6. The submit button is enabled exactly when the top, front and side view files
  are all set and no extraction is in flight; and a submission made from such a state
  sends all three views, under their three keys, in one request.
\<close>

theorem submit_enabled_iff_all_views:
  "(\<not> submit_disabled s) =
     (top_view (files s) \<noteq> None \<and> front_view (files s) \<noteq> None
      \<and> side_view (files s) \<noteq> None \<and> \<not> isLoading s)
   \<and> (\<not> submit_disabled s \<longrightarrow>
        (\<exists>t f d. top_view (files s) = Some t \<and> front_view (files s) = Some f
           \<and> side_view (files s) = Some d
           \<and> snd (handleSubmit_begin s) =
               Post ''http://localhost:5001/extract-dimensions''
                 (FormData [(''top_view'', t), (''front_view'', f), (''side_view'', d)])))"
  by (auto simp add: submit_disabled_def allFilesSelected_def Object_values_def
      Object_entries_def handleSubmit_begin_def formData_of_def)

theorem submit_enabled_iff_all_views_witness:
  "\<not> submit_disabled three_views_state
   \<and> snd (handleSubmit_begin three_views_state) =
       Post ''http://localhost:5001/extract-dimensions''
         (FormData [(''top_view'', \<lparr>name = ''top.png''\<rparr>),
                    (''front_view'', \<lparr>name = ''front.png''\<rparr>),
                    (''side_view'', \<lparr>name = ''side.png''\<rparr>)])"
  using submit_enabled_iff_all_views [of three_views_state]
  by (simp add: three_views_state_def)

text \<open>
  Claim C7. \<^verbatim>\<open>handleGenerateVba\<close> called with \<open>result\<close> at null changes nothing and sends
  nothing, so a conversion request is sent only from a state that holds a result, and the
  request carries that result; \<^verbatim>\<open>handleDownloadVba\<close> called with \<open>vbaScript\<close> at null
  offers no download, so a download happens only from a state that holds a script, and it
  is that script which is downloaded.
\<close>

theorem generate_and_download_guarded:
  "(result s = None \<longrightarrow> handleGenerateVba s outcome = (s, None))
   \<and> (vbaScript s = None \<longrightarrow> handleDownloadVba s = None)
   \<and> (snd (handleGenerateVba s outcome) = Some req \<longrightarrow>
        (\<exists>r. result s = Some r \<and> req = Post ''http://localhost:5002/convert-clean'' (Json r)))
   \<and> (handleDownloadVba s = Some d \<longrightarrow>
        (\<exists>script. vbaScript s = Some script \<and> script \<noteq> []
           \<and> d = Download ''solidworks_macro.vba'' script))"
  by (auto simp add: handleGenerateVba_def handleGenerateVba_begin_def handleDownloadVba_def
      split: option.splits if_splits)

theorem generate_and_download_guarded_witness:
  "result three_views_state = None
   \<and> handleGenerateVba three_views_state (Inr ''Option Explicit'') = (three_views_state, None)
   \<and> vbaScript three_views_state = None
   \<and> handleDownloadVba three_views_state = None
   \<and> snd (handleGenerateVba extracted_state (Inr ''Option Explicit''))
       = Some (Post ''http://localhost:5002/convert-clean'' (Json sample_result))
   \<and> result extracted_state = Some sample_result
   \<and> handleDownloadVba extracted_state = Some (Download ''solidworks_macro.vba'' ''Option Explicit'')
   \<and> vbaScript extracted_state = Some ''Option Explicit''"
proof -
  have none: "result three_views_state = None" "vbaScript three_views_state = None"
    by (simp_all add: three_views_state_def)
  have sent: "snd (handleGenerateVba extracted_state (Inr ''Option Explicit''))
      = Some (Post ''http://localhost:5002/convert-clean'' (Json sample_result))"
    by (simp add: handleGenerateVba_def handleGenerateVba_begin_def extracted_state_def)
  have down: "handleDownloadVba extracted_state
      = Some (Download ''solidworks_macro.vba'' ''Option Explicit'')"
    by (simp add: handleDownloadVba_def extracted_state_def)
  from generate_and_download_guarded
    [of three_views_state "Inr ''Option Explicit''" "Post [] (FormData [])" "Download [] []"]
    generate_and_download_guarded
    [of extracted_state "Inr ''Option Explicit''"
        "Post ''http://localhost:5002/convert-clean'' (Json sample_result)"
        "Download ''solidworks_macro.vba'' ''Option Explicit''"]
  show ?thesis using none sent down by simp
qed





section \<open>Properties of the recommendation validation\<close>

lemma check_recommendation_iff:
  "(check_recommendation rec i = Inr ()) =
     (analysis_type_ok rec \<and> confidence_ok rec \<and> reasoning_truthy rec)"
  apply (cases rec)
  apply (auto simp add: check_recommendation_def analysis_type_ok_def confidence_ok_def
      reasoning_truthy_def validAnalyses_def split: option.splits json.splits sum.splits)
  done

lemma forEach_check_iff:
  "(forEach_check recs i = Inr ()) =
     list_all (\<lambda>rec. analysis_type_ok rec \<and> confidence_ok rec \<and> reasoning_truthy rec) recs"
proof (induction recs arbitrary: i)
  case Nil show ?case by simp
next
  case (Cons rec recs)
  show ?case
  proof (cases "check_recommendation rec i")
    case (Inl e)
    with check_recommendation_iff [of rec i] show ?thesis by auto
  next
    case (Inr u)
    with check_recommendation_iff [of rec i] Cons.IH [of "Suc i"] show ?thesis by auto
  qed
qed

lemma forEach_check_cases:
  "(case forEach_check recs i of Inl e \<Rightarrow> Inl e | Inr u \<Rightarrow> Inr v) = Inr v'
     \<longleftrightarrow> v' = v \<and> list_all (\<lambda>rec. analysis_type_ok rec \<and> confidence_ok rec \<and> reasoning_truthy rec) recs"
  using forEach_check_iff [of recs i] by (cases "forEach_check recs i") auto

lemma validate_returns_iff:
  "(validate v = Inr v') = (v' = v \<and> response_shape reasoning_truthy v)"
proof (cases v)
  case (JObject kvs)
  show ?thesis
  proof (cases "map_of kvs ''response_type'' = Some (JString ''analysis_recommendation'')")
    case False
    then show ?thesis
      by (cases "map_of kvs ''response_type''")
        (simp_all add: JObject validate_def response_shape_def)
  next
    case rt: True
    show ?thesis
    proof (cases "map_of kvs ''data''")
      case None
      with rt show ?thesis
        by (simp add: JObject validate_def response_shape_def recommendations_of_def)
    next
      case (Some d)
      note data = this
      show ?thesis
      proof (cases d)
        case (JObject kvs')
        show ?thesis
        proof (cases "map_of kvs' ''recommendations''")
          case None
          with rt data JObject show ?thesis
            by (simp add: \<open>v = JObject kvs\<close> validate_def response_shape_def recommendations_of_def)
        next
          case (Some rs)
          with rt data JObject show ?thesis
            by (cases rs)
              (simp_all add: \<open>v = JObject kvs\<close> validate_def response_shape_def
                recommendations_of_def forEach_check_cases)
        qed
      qed (use rt data in \<open>simp_all add: \<open>v = JObject kvs\<close> validate_def response_shape_def
            recommendations_of_def\<close>)
    qed
  qed
qed (simp_all add: validate_def response_shape_def)

lemma getAnalysisRecommendation_returns_iff:
  "(getAnalysisRecommendation parsed = Inr r)
     = (parsed = Some r \<and> response_shape reasoning_truthy r)"
  "(getAnalysisRecommendationWithImage parsed = Inr r)
     = (parsed = Some r \<and> response_shape reasoning_truthy r)"
proof -
  have "(case validate v of Inl e \<Rightarrow> Inl (FailedToParse e) | Inr r' \<Rightarrow> Inr r') = Inr r
      \<longleftrightarrow> validate v = Inr r" for v
    by (cases "validate v") simp_all
  then show
    "(getAnalysisRecommendation parsed = Inr r)
       = (parsed = Some r \<and> response_shape reasoning_truthy r)"
    "(getAnalysisRecommendationWithImage parsed = Inr r)
       = (parsed = Some r \<and> response_shape reasoning_truthy r)"
    by (cases parsed;
        auto simp add: getAnalysisRecommendation_def getAnalysisRecommendationWithImage_def
          validate_returns_iff)+
qed

lemma reasoning_string_truthy: "reasoning_nonempty_string rec \<Longrightarrow> reasoning_truthy rec"
proof (cases "get_prop rec ''reasoning''")
  case (Inl e)
  then show "reasoning_nonempty_string rec \<Longrightarrow> reasoning_truthy rec"
    by (simp add: reasoning_nonempty_string_def)
next
  case (Inr r)
  assume a: "reasoning_nonempty_string rec"
  show "reasoning_truthy rec"
  proof (cases r)
    case None
    with Inr a show ?thesis by (simp add: reasoning_nonempty_string_def)
  next
    case (Some j)
    with Inr a show ?thesis
      by (cases j) (simp_all add: reasoning_nonempty_string_def reasoning_truthy_def)
  qed
qed

lemma declared_shape_accepted:
  "response_shape reasoning_nonempty_string v \<Longrightarrow> response_shape reasoning_truthy v"
proof -
  assume a: "response_shape reasoning_nonempty_string v"
  show ?thesis
  proof (cases "recommendations_of v")
    case None
    with a show ?thesis by (simp add: response_shape_def)
  next
    case (Some recs)
    with a have "\<forall>rec \<in> set recs. analysis_type_ok rec \<and> confidence_ok rec \<and> reasoning_truthy rec"
      by (simp add: response_shape_def list_all_iff reasoning_string_truthy)
    with a Some show ?thesis by (simp add: response_shape_def list_all_iff)
  qed
qed

text \<open>
  Claim C10. The validated shape asks for a non-empty reasoning string in every
  recommendation. Both functions return the response below unchanged, although the
  reasoning of its first recommendation is an object: the block tests the reasoning for
  truthiness only, where it tests the confidence with \<^verbatim>\<open>typeof\<close>.
\<close>

theorem structured_reasoning_returned:
  "getAnalysisRecommendation (Some structured_reasoning_response)
     = Inr structured_reasoning_response
   \<and> getAnalysisRecommendationWithImage (Some structured_reasoning_response)
     = Inr structured_reasoning_response
   \<and> \<not> response_shape reasoning_nonempty_string structured_reasoning_response"
  by (simp add: getAnalysisRecommendation_def getAnalysisRecommendationWithImage_def
      validate_def structured_reasoning_response_def check_recommendation_def
      validAnalyses_def response_shape_def recommendations_of_def
      reasoning_nonempty_string_def)

section \<open>Properties of the emitted macros\<close>

lemma CreateSimpleCube_ops:
  "read_macro CreateSimpleCube =
     Some [BeginSketch None, DrawRectangle (- (1 / 20)) (- (1 / 20)) (1 / 10) (1 / 10),
           EndSketch, Extrusion (1 / 10)]"
  by (simp add: CreateSimpleCube_def prepend_def center_rectangle_def)

lemma macros_follow_sequence:
  "phases (ops_of CreateSimpleCube) = [Begin, Rectangle, End, Extrude]"
  "phases (ops_of CreateModelFromJSON) = [Begin, Rectangle, End, Extrude]"
  "phases (ops_of CreateModelFromJSON_stacking)
     = [Begin, Rectangle, End, Extrude, Begin, Rectangle, End, Extrude]"
  by (simp_all add: phases_def ops_of_def CreateSimpleCube_def CreateModelFromJSON_def
      CreateModelFromJSON_stacking_def prepend_def rectangle_of_lines_def horizontal_def
      vertical_def center_rectangle_def)

lemma macros_select_no_face:
  "\<not> list_ex selects_face (sketch_selections (ops_of CreateSimpleCube))"
  "\<not> list_ex selects_face (sketch_selections (ops_of CreateModelFromJSON))"
  "\<not> list_ex selects_face (sketch_selections (ops_of CreateModelFromJSON_stacking))"
  by (simp_all add: ops_of_def CreateSimpleCube_def CreateModelFromJSON_def
      CreateModelFromJSON_stacking_def prepend_def rectangle_of_lines_def horizontal_def
      vertical_def center_rectangle_def)

text \<open>
  Claim C1, as stated: the macro for the 40 by 60 plate draws an inner rectangle of
  dimensions 30 by 40 at offset (5, 15). The rectangle it draws at that offset is 30 by
  30; it draws none of 30 by 40.
\<close>

theorem CreateModelFromJSON_no_30_by_40:
  "DrawRectangle 5 15 30 30 \<in> set (ops_of CreateModelFromJSON)
   \<and> DrawRectangle 5 15 30 40 \<notin> set (ops_of CreateModelFromJSON)"
  by (simp add: ops_of_def CreateModelFromJSON_def prepend_def rectangle_of_lines_def
      horizontal_def vertical_def)

text \<open>
  Claim C1, amended. The macro opens one sketch on the front plane, draws the outer
  rectangle of width 40 and height 60 at the origin and one inner rectangle of width 30
  and height 30 at offset (5, 15) in it, closes the sketch, and extrudes it to depth 100.
\<close>

theorem CreateModelFromJSON_ops:
  "read_macro CreateModelFromJSON =
     Some [BeginSketch (Some (''Front Plane'', ''PLANE'')),
           DrawRectangle 0 0 40 60, DrawRectangle 5 15 30 30,
           EndSketch, Extrusion 100]"
  by (simp add: CreateModelFromJSON_def prepend_def rectangle_of_lines_def
      horizontal_def vertical_def)

text \<open>
  Claim C5, as stated: the operations of a non-root feature begin a sketch on a face of
  the parent, not on the global base plane. The one later sketch of the stacking macro is
  opened on a selection of type \<^verbatim>\<open>PLANE\<close>, the front plane, which is the selection of the
  root's sketch.
\<close>

theorem stacking_child_sketch_on_front_plane:
  "later_sketch_selections (ops_of CreateModelFromJSON_stacking)
     = [Some (''Front Plane'', ''PLANE'')]
   \<and> sketch_selections (ops_of CreateModelFromJSON_stacking) ! 0
     = Some (''Front Plane'', ''PLANE'')
   \<and> \<not> list_all selects_face (later_sketch_selections (ops_of CreateModelFromJSON_stacking))"
  by (simp add: ops_of_def later_sketch_selections_def CreateModelFromJSON_stacking_def
      prepend_def rectangle_of_lines_def horizontal_def vertical_def center_rectangle_def)

text \<open>
  Claim C5, amended. In the stacking macro the operations of the second feature follow
  the extrusion of the first: a sketch is begun on the front plane, the rectangle of
  width and height 0.1 is drawn with its corner at the origin of that plane, the sketch
  is ended, and an extrusion of depth 0.1 is emitted, by a call with the arguments of the
  first extrusion.
\<close>

theorem stacking_ops:
  "read_macro CreateModelFromJSON_stacking =
     Some [BeginSketch (Some (''Front Plane'', ''PLANE'')),
           DrawRectangle (- (1 / 20)) (- (1 / 20)) (1 / 10) (1 / 10),
           EndSketch, Extrusion (1 / 10),
           BeginSketch (Some (''Front Plane'', ''PLANE'')),
           DrawRectangle 0 0 (1 / 10) (1 / 10),
           EndSketch, Extrusion (1 / 10)]
   \<and> CreateModelFromJSON_stacking ! 13 = CreateModelFromJSON_stacking ! 5"
  by (simp add: CreateModelFromJSON_stacking_def prepend_def rectangle_of_lines_def
      horizontal_def vertical_def center_rectangle_def)

section \<open>Properties of the macro code generator\<close>

lemma faces_known_append:
  "faces_known S (a @ b) = (faces_known S a \<and> faces_known (S \<union> completed a) b)"
proof (induction S a rule: faces_known.induct)
qed simp_all

lemma extrude_or_cut_known:
  "faces_known S (extrude_or_cut kind n d # ops) = (n \<notin> S \<and> faces_known (insert n S) ops)"
  by (cases kind) simp_all

lemma completed_append: "completed (a @ b) = completed a \<union> completed b"
  by (induction a rule: completed.induct) simp_all

lemma completed_extrude_or_cut:
  "completed (extrude_or_cut kind n d # ops) = insert n (completed ops)"
  by (cases kind) simp_all

lemma emit_node_step:
  assumes e: "emit_children n (Suc n) children = (ops, n')"
    and ih: "faces_known (insert n S) ops" "Suc n \<le> n'"
      "\<forall>k \<in> completed ops. Suc n \<le> k \<and> k < n'"
    and a: "parent \<in> S" "\<forall>s\<in>S. s < n"
  shows "faces_known S (fst (emit_node parent n (FeatureNode kind dims pos children)))
      \<and> n \<le> snd (emit_node parent n (FeatureNode kind dims pos children))
      \<and> (\<forall>k \<in> completed (fst (emit_node parent n (FeatureNode kind dims pos children))).
            n \<le> k \<and> k < snd (emit_node parent n (FeatureNode kind dims pos children)))"
proof -
  from a(2) have fresh: "n \<notin> S" by auto
  have ops_eq: "fst (emit_node parent n (FeatureNode kind dims pos children)) =
      begin_sketch (face_of parent) # create_rectangle pos (width dims) (height dims)
        # end_sketch # extrude_or_cut kind n (depth dims) # ops"
    and n_eq: "snd (emit_node parent n (FeatureNode kind dims pos children)) = n'"
    using e by simp_all
  have c: "completed (fst (emit_node parent n (FeatureNode kind dims pos children)))
      = insert n (completed ops)"
    unfolding ops_eq by (simp add: completed_extrude_or_cut)
  have f: "faces_known S (fst (emit_node parent n (FeatureNode kind dims pos children)))"
    unfolding ops_eq using a(1) fresh ih(1) by (simp add: extrude_or_cut_known)
  have r: "\<forall>k \<in> insert n (completed ops). n \<le> k \<and> k < n'"
  proof
    fix k assume "k \<in> insert n (completed ops)"
    then consider "k = n" | "k \<in> completed ops" by blast
    then show "n \<le> k \<and> k < n'"
    proof cases
      case 1
      with ih(2) show ?thesis by simp
    next
      case 2
      with ih(3) have "Suc n \<le> k \<and> k < n'" by blast
      then show ?thesis by simp
    qed
  qed
  from ih(2) have "n \<le> n'" by simp
  with f r show ?thesis unfolding c n_eq by blast
qed

lemma emit_children_step:
  assumes e1: "emit_node parent n child = (ops1, n1)"
    and e2: "emit_children parent n1 children = (ops2, n2)"
    and k1: "faces_known S ops1" "n \<le> n1" "\<forall>k \<in> completed ops1. n \<le> k \<and> k < n1"
    and k2: "faces_known (S \<union> completed ops1) ops2" "n1 \<le> n2"
      "\<forall>k \<in> completed ops2. n1 \<le> k \<and> k < n2"
  shows "faces_known S (fst (emit_children parent n (child # children)))
      \<and> n \<le> snd (emit_children parent n (child # children))
      \<and> (\<forall>k \<in> completed (fst (emit_children parent n (child # children))).
            n \<le> k \<and> k < snd (emit_children parent n (child # children)))"
proof -
  have ops_eq: "fst (emit_children parent n (child # children)) = ops1 @ ops2"
    and n_eq: "snd (emit_children parent n (child # children)) = n2"
    using e1 e2 by simp_all
  have r: "\<forall>k \<in> completed ops1 \<union> completed ops2. n \<le> k \<and> k < n2"
  proof
    fix k assume "k \<in> completed ops1 \<union> completed ops2"
    then consider "k \<in> completed ops1" | "k \<in> completed ops2" by blast
    then show "n \<le> k \<and> k < n2"
    proof cases
      case 1
      with k1(3) have "n \<le> k \<and> k < n1" by blast
      with k2(2) show ?thesis by simp
    next
      case 2
      with k2(3) have "n1 \<le> k \<and> k < n2" by blast
      with k1(2) show ?thesis by simp
    qed
  qed
  from k1(1) k2(1) have "faces_known S (ops1 @ ops2)" by (simp add: faces_known_append)
  moreover from k1(2) k2(2) have "n \<le> n2" by simp
  ultimately show ?thesis using r unfolding ops_eq n_eq completed_append by blast
qed

lemma emit_faces_known:
  "(\<forall>S. parent \<in> S \<and> (\<forall>s\<in>S. s < n) \<longrightarrow>
      faces_known S (fst (emit_node parent n node))
      \<and> n \<le> snd (emit_node parent n node)
      \<and> (\<forall>k \<in> completed (fst (emit_node parent n node)).
            n \<le> k \<and> k < snd (emit_node parent n node)))"
  "(\<forall>S. parent \<in> S \<and> (\<forall>s\<in>S. s < n) \<longrightarrow>
      faces_known S (fst (emit_children parent n nodes))
      \<and> n \<le> snd (emit_children parent n nodes)
      \<and> (\<forall>k \<in> completed (fst (emit_children parent n nodes)).
            n \<le> k \<and> k < snd (emit_children parent n nodes)))"
proof (induction parent n node and parent n nodes rule: emit_node_emit_children.induct)
  case (1 parent n kind dims pos children)
  show ?case
  proof (intro allI impI)
    fix S assume a: "parent \<in> S \<and> (\<forall>s\<in>S. s < n)"
    obtain ops n' where e: "emit_children n (Suc n) children = (ops, n')"
      by (cases "emit_children n (Suc n) children")
    have pre: "n \<in> insert n S \<and> (\<forall>s\<in>insert n S. s < Suc n)"
    proof
      show "n \<in> insert n S" by simp
      show "\<forall>s\<in>insert n S. s < Suc n"
      proof
        fix s assume "s \<in> insert n S"
        then consider "s = n" | "s \<in> S" by blast
        then show "s < Suc n"
        proof cases
          case 1 then show ?thesis by simp
        next
          case 2 with a have "s < n" by blast
          then show ?thesis by simp
        qed
      qed
    qed
    from 1 have "\<forall>S. n \<in> S \<and> (\<forall>s\<in>S. s < Suc n) \<longrightarrow>
      faces_known S (fst (emit_children n (Suc n) children))
      \<and> Suc n \<le> snd (emit_children n (Suc n) children)
      \<and> (\<forall>k \<in> completed (fst (emit_children n (Suc n) children)).
            Suc n \<le> k \<and> k < snd (emit_children n (Suc n) children))" .
    from this [rule_format, OF pre] e
    have ih: "faces_known (insert n S) ops" "Suc n \<le> n'"
      "\<forall>k \<in> completed ops. Suc n \<le> k \<and> k < n'"
      by simp_all
    from a have a1: "parent \<in> S" and a2: "\<forall>s\<in>S. s < n" by blast+
    show "faces_known S (fst (emit_node parent n (FeatureNode kind dims pos children)))
      \<and> n \<le> snd (emit_node parent n (FeatureNode kind dims pos children))
      \<and> (\<forall>k \<in> completed (fst (emit_node parent n (FeatureNode kind dims pos children))).
            n \<le> k \<and> k < snd (emit_node parent n (FeatureNode kind dims pos children)))"
      by (rule emit_node_step [OF e ih a1 a2])
  qed
next
  case (2 parent n)
  show ?case by simp
next
  case (3 parent n child children)
  show ?case
  proof (intro allI impI)
    fix S assume p: "parent \<in> S \<and> (\<forall>s\<in>S. s < n)"
    obtain ops1 n1 where e1: "emit_node parent n child = (ops1, n1)"
      by (cases "emit_node parent n child")
    obtain ops2 n2 where e2: "emit_children parent n1 children = (ops2, n2)"
      by (cases "emit_children parent n1 children")
    from "3.IH"(1) [rule_format, OF p] e1
    have k1: "faces_known S ops1" "n \<le> n1" "\<forall>k \<in> completed ops1. n \<le> k \<and> k < n1"
      by simp_all
    have pre: "parent \<in> S \<union> completed ops1 \<and> (\<forall>s\<in>S \<union> completed ops1. s < n1)"
    proof
      from p show "parent \<in> S \<union> completed ops1" by simp
      show "\<forall>s\<in>S \<union> completed ops1. s < n1"
      proof
        fix s assume "s \<in> S \<union> completed ops1"
        then consider "s \<in> S" | "s \<in> completed ops1" by blast
        then show "s < n1"
        proof cases
          case 1 with p have "s < n" by blast
          with k1(2) show ?thesis by simp
        next
          case 2 with k1(3) show ?thesis by blast
        qed
      qed
    qed
    from "3.IH"(2) [OF e1 [symmetric], rule_format, OF pre] e2
    have k2: "faces_known (S \<union> completed ops1) ops2" "n1 \<le> n2"
      "\<forall>k \<in> completed ops2. n1 \<le> k \<and> k < n2"
      by simp_all
    show "faces_known S (fst (emit_children parent n (child # children)))
      \<and> n \<le> snd (emit_children parent n (child # children))
      \<and> (\<forall>k \<in> completed (fst (emit_children parent n (child # children))).
            n \<le> k \<and> k < snd (emit_children parent n (child # children)))"
      by (rule emit_children_step [OF e1 e2 k1 k2])
  qed
qed

lemma generate_faces_known: "faces_known {} (generate t)"
proof (cases t)
  case (FeatureNode kind dims pos children)
  have "faces_known {0} (fst (emit_children 0 1 children))"
    using emit_faces_known(2) [of 0 1 children] by simp
  with FeatureNode show ?thesis by simp
qed

lemma completed_single: "k \<in> completed [operation] = completes k operation"
  by (cases operation) auto

lemma faces_known_fresh:
  "faces_known S ops \<Longrightarrow> k \<in> S \<Longrightarrow> j < length ops \<Longrightarrow> \<not> completes k (ops ! j)"
proof (induction ops arbitrary: S j)
  case Nil
  then show ?case by simp
next
  case (Cons operation ops)
  from Cons.prems(1) have "faces_known S ([operation] @ ops)" by simp
  then have first: "faces_known S [operation]"
    and rest: "faces_known (S \<union> completed [operation]) ops"
    by (simp_all only: faces_known_append)
  show ?case
  proof (cases j)
    case 0
    from first Cons.prems(2) have "\<not> completes k operation" by (cases operation) auto
    with 0 show ?thesis by simp
  next
    case (Suc j')
    with Cons.prems(3) have "j' < length ops" by simp
    from Cons.IH [OF rest _ this] Cons.prems(2) Suc show ?thesis by simp
  qed
qed

lemma faces_known_index:
  "faces_known S ops \<Longrightarrow> i < length ops \<Longrightarrow> ops ! i = begin_sketch (face_of k)
     \<Longrightarrow> (k \<in> S \<or> (\<exists>j<i. completes k (ops ! j)))
         \<and> (\<forall>j<length ops. completes k (ops ! j) \<longrightarrow> j < i)"
proof (induction ops arbitrary: S i)
  case Nil
  then show ?case by simp
next
  case (Cons operation ops)
  from Cons.prems(1) have "faces_known S ([operation] @ ops)" by simp
  then have rest: "faces_known (S \<union> completed [operation]) ops"
    by (simp only: faces_known_append)
  show ?case
  proof (cases i)
    case 0
    with Cons.prems have k: "k \<in> S" by simp
    from faces_known_fresh [OF Cons.prems(1) k]
    have "\<forall>j<length (operation # ops). \<not> completes k ((operation # ops) ! j)" by blast
    with k show ?thesis by blast
  next
    case (Suc i')
    from Cons.prems(2,3) Suc have "i' < length ops" "ops ! i' = begin_sketch (face_of k)"
      by simp_all
    from Cons.IH [OF rest this]
    have before: "k \<in> S \<or> k \<in> completed [operation] \<or> (\<exists>j<i'. completes k (ops ! j))"
      and after: "\<forall>j<length ops. completes k (ops ! j) \<longrightarrow> j < i'"
      by blast+
    have ex: "k \<in> S \<or> (\<exists>j<i. completes k ((operation # ops) ! j))"
    proof -
      from before consider "k \<in> S" | "k \<in> completed [operation]"
        | "\<exists>j<i'. completes k (ops ! j)" by blast
      then show ?thesis
      proof cases
        case 1
        then show ?thesis by simp
      next
        case 2
        then have "completes k ((operation # ops) ! 0)" by (simp add: completed_single)
        with Suc show ?thesis by blast
      next
        case 3
        then obtain j where "j < i'" "completes k (ops ! j)" by blast
        then have "Suc j < i" "completes k ((operation # ops) ! Suc j)" using Suc by simp_all
        then show ?thesis by blast
      qed
    qed
    have all: "\<forall>j<length (operation # ops). completes k ((operation # ops) ! j) \<longrightarrow> j < i"
    proof (intro allI impI)
      fix j assume j: "j < length (operation # ops)" and c: "completes k ((operation # ops) ! j)"
      show "j < i"
      proof (cases j)
        case 0
        with Suc show ?thesis by simp
      next
        case (Suc j')
        with j c after \<open>i = Suc i'\<close> show ?thesis by simp
      qed
    qed
    from ex all show ?thesis by blast
  qed
qed

text \<open>
  Claim C2. Every program the generator emits begins with the sequence of the root,
  begin_sketch on the base plane, create_rectangle, end_sketch, extrude to the depth of
  the root; and wherever an operation of the program begins a sketch on the face of a
  feature, the extrude or cut that completes that feature is in the program at a strictly
  smaller index, and at no other index.
\<close>

theorem generate_root_sequence_and_ordering:
  "take 4 (generate (FeatureNode kind dims pos children))
     = [begin_sketch base_plane, create_rectangle pos (width dims) (height dims),
        end_sketch, extrude 0 (depth dims)]
   \<and> (\<forall>i parent.
         i < length (generate (FeatureNode kind dims pos children))
         \<and> generate (FeatureNode kind dims pos children) ! i = begin_sketch (face_of parent)
         \<longrightarrow> (\<exists>j<i. completes parent (generate (FeatureNode kind dims pos children) ! j))
             \<and> (\<forall>j<length (generate (FeatureNode kind dims pos children)).
                   completes parent (generate (FeatureNode kind dims pos children) ! j)
                   \<longrightarrow> j < i))"
proof (intro conjI allI impI)
  show "take 4 (generate (FeatureNode kind dims pos children))
     = [begin_sketch base_plane, create_rectangle pos (width dims) (height dims),
        end_sketch, extrude 0 (depth dims)]"
    by simp
next
  fix i parent
  assume a: "i < length (generate (FeatureNode kind dims pos children))
    \<and> generate (FeatureNode kind dims pos children) ! i = begin_sketch (face_of parent)"
  from faces_known_index [OF generate_faces_known, of i _ parent] a
  show "\<exists>j<i. completes parent (generate (FeatureNode kind dims pos children) ! j)"
    by blast
next
  fix i parent j
  assume a: "i < length (generate (FeatureNode kind dims pos children))
    \<and> generate (FeatureNode kind dims pos children) ! i = begin_sketch (face_of parent)"
    and j: "j < length (generate (FeatureNode kind dims pos children))"
    and c: "completes parent (generate (FeatureNode kind dims pos children) ! j)"
  from faces_known_index [OF generate_faces_known, of i _ parent] a j c
  show "j < i"
    by blast
qed

theorem generate_root_sequence_and_ordering_witness:
  "take 4 (generate scenario_B)
     = [begin_sketch base_plane, create_rectangle \<lparr>x = 0, y = 0, z = 0\<rparr> 40 60,
        end_sketch, extrude 0 100]
   \<and> 4 < length (generate scenario_B)
   \<and> generate scenario_B ! 4 = begin_sketch (face_of 0)
   \<and> (\<exists>j<4. completes 0 (generate scenario_B ! j))
   \<and> map (completes 0) (generate scenario_B)
       = [False, False, False, True, False, False, False, False]"
proof -
  have g: "generate scenario_B =
      [begin_sketch base_plane, create_rectangle \<lparr>x = 0, y = 0, z = 0\<rparr> 40 60,
       end_sketch, extrude 0 100,
       begin_sketch (face_of 0), create_rectangle \<lparr>x = 5, y = 15, z = 0\<rparr> 30 40,
       end_sketch, cut_op 1 100]"
    by (simp add: scenario_B_def)
  have hyp: "4 < length (generate scenario_B)
      \<and> generate scenario_B ! 4 = begin_sketch (face_of 0)"
    by (simp add: g)
  from generate_root_sequence_and_ordering
    [of BaseExtrude "\<lparr>width = 40, height = 60, depth = 100\<rparr>" "\<lparr>x = 0, y = 0, z = 0\<rparr>"
        "[FeatureNode Cut \<lparr>width = 30, height = 40, depth = 100\<rparr> \<lparr>x = 5, y = 15, z = 0\<rparr> []]"]
  have "\<forall>i parent. i < length (generate scenario_B)
      \<and> generate scenario_B ! i = begin_sketch (face_of parent)
      \<longrightarrow> (\<exists>j<i. completes parent (generate scenario_B ! j))
          \<and> (\<forall>j<length (generate scenario_B).
                completes parent (generate scenario_B ! j) \<longrightarrow> j < i)"
    unfolding scenario_B_def by blast
  with hyp have "(\<exists>j<4. completes 0 (generate scenario_B ! j))
      \<and> (\<forall>j<length (generate scenario_B). completes 0 (generate scenario_B ! j) \<longrightarrow> j < 4)"
    by blast
  then have "\<exists>j<4. completes 0 (generate scenario_B ! j)" by blast
  with hyp show ?thesis by (simp add: g)
qed

end
